theory Spec2Isabelle
  imports Complex_Main "HOL-Library.AList"
begin

section \<open>JavaScript values\<close>

text \<open>
  The configuration that \<open>ConfigManager.load\<close> returns is whatever \<open>JSON.parse\<close>
  produced, and event properties are \<open>Record<string, any>\<close>, so values are modelled
  as they are at run time. An object is the list of its own properties in insertion
  order. \<open>JDate\<close> is the \<open>Date\<close> object that \<open>createNew\<close> stores in \<open>createdAt\<close>.
  Numbers are rationals: the code never computes with them, it only tests them for
  truthiness.
\<close>

datatype jsval =
    JUndefined
  | JNull
  | JBool bool
  | JNum rat
  | JStr string
  | JDate nat
  | JArr "jsval list"
  | JObj "(string \<times> jsval) list"

text \<open>
  What the source can throw. \<open>TelemetryError message code\<close> is the class of
  \<open>types.ts\<close>. \<open>TypeError\<close> is raised by the language (a property read on
  \<open>null\<close> or \<open>undefined\<close>, \<open>path.join\<close> on a non-string), \<open>SyntaxError\<close> by \<open>JSON.parse\<close>. \<open>FsError\<close> is a
  rejected call of \<open>fs/promises\<close>, \<open>BackendError\<close> an exception coming out of
  the PostHog or Sentry SDK; both carry the name of the call.
\<close>

datatype error =
    TelemetryError string string
  | TypeError string
  | SyntaxError string
  | FsError string
  | BackendError string

text \<open>The text that a template literal \<open>${error}\<close> interpolates.\<close>

fun error_text :: "error \<Rightarrow> string" where
  "error_text (TelemetryError m c) = ''TelemetryError: '' @ m"
| "error_text (TypeError m) = ''TypeError: '' @ m"
| "error_text (SyntaxError m) = ''SyntaxError: '' @ m"
| "error_text (FsError m) = ''Error: '' @ m"
| "error_text (BackendError m) = ''Error: '' @ m"

text \<open>JavaScript truthiness, as \<open>!x\<close>, \<open>x && y\<close>, \<open>x || y\<close> and \<open>if (x)\<close> test it.\<close>

fun truthy :: "jsval \<Rightarrow> bool" where
  "truthy JUndefined = False"
| "truthy JNull = False"
| "truthy (JBool b) = b"
| "truthy (JNum n) = (n \<noteq> 0)"
| "truthy (JStr s) = (s \<noteq> [])"
| "truthy (JDate t) = True"
| "truthy (JArr xs) = True"
| "truthy (JObj kvs) = True"

text \<open>
  The property read \<open>v.k\<close>. It throws on \<open>null\<close> and \<open>undefined\<close>. The source
  reads only \<open>enabled\<close>, \<open>instanceId\<close> and \<open>configPath\<close>, which no string, number,
  boolean, array or Date has, so on those the read gives \<open>undefined\<close>.
\<close>

fun get_prop :: "jsval \<Rightarrow> string \<Rightarrow> error + jsval" where
  "get_prop JUndefined k = Inl (TypeError (''Cannot read properties of undefined (reading '' @ k @ '')''))"
| "get_prop JNull k = Inl (TypeError (''Cannot read properties of null (reading '' @ k @ '')''))"
| "get_prop (JObj kvs) k = Inr (case map_of kvs k of None \<Rightarrow> JUndefined | Some v \<Rightarrow> v)"
| "get_prop v k = Inr JUndefined"

text \<open>
  The assignment \<open>v.k = x\<close>. On an object it replaces the value of an existing
  property in place or appends a new one. It throws on \<open>null\<close> and \<open>undefined\<close>,
  and, the modules being strict code, on a primitive. An expando property on an
  array or a Date is not represented; \<open>updateConsent\<close> assigns only after it has read
  a truthy \<open>configPath\<close>, which only a \<open>JObj\<close> has.
\<close>

fun set_prop :: "jsval \<Rightarrow> string \<Rightarrow> jsval \<Rightarrow> error + jsval" where
  "set_prop JUndefined k x = Inl (TypeError (''Cannot set properties of undefined (setting '' @ k @ '')''))"
| "set_prop JNull k x = Inl (TypeError (''Cannot set properties of null (setting '' @ k @ '')''))"
| "set_prop (JObj kvs) k x = Inr (JObj (AList.update k x kvs))"
| "set_prop (JArr xs) k x = Inr (JArr xs)"
| "set_prop (JDate t) k x = Inr (JDate t)"
| "set_prop v k x = Inl (TypeError (''Cannot create property '' @ k))"

text \<open>
  An object literal \<open>{...a, k1: v1, k2: v2}\<close>: the properties are defined from left
  to right on an empty object, a later one replacing the value of an earlier one of
  the same name.
\<close>

definition obj_literal :: "(string \<times> jsval) list \<Rightarrow> (string \<times> jsval) list" where
  "obj_literal kvs = foldl (\<lambda>acc kv. AList.update (fst kv) (snd kv) acc) [] kvs"

text \<open>\<open>x || d\<close> on an optional string: the default replaces \<open>undefined\<close> and \<open>''\<close>.\<close>

definition or_default :: "string option \<Rightarrow> string \<Rightarrow> string" where
  "or_default x d = (case x of None \<Rightarrow> d | Some s \<Rightarrow> if s = [] then d else s)"

definition opt_str :: "string option \<Rightarrow> jsval" where
  "opt_str x = (case x of None \<Rightarrow> JUndefined | Some s \<Rightarrow> JStr s)"

definition env_set :: "string option \<Rightarrow> bool" where
  "env_set x = (case x of None \<Rightarrow> False | Some s \<Rightarrow> s \<noteq> [])"


section \<open>The environment\<close>

text \<open>
  Everything outside the repository that the code consults or calls: the process
  (\<open>process.platform\<close>, \<open>process.version\<close>, \<open>process.env\<close>, \<open>isatty\<close> of the
  standard streams), the file system, \<open>JSON.parse\<close>, \<open>path.join\<close> and
  \<open>path.dirname\<close>, \<open>uuidv4()\<close>, \<open>new Date()\<close>, the line typed at the prompt, and
  whether each call into \<open>fs\<close>, PostHog or Sentry succeeds or throws. One \<open>world\<close>
  is the environment of one call of a public operation; no operation makes the same
  external call twice.
\<close>

datatype fsfile = Absent | Unreadable | Content string

record world =
  platform :: string
  node_version :: string
  npm_package_version :: "string option"
  env_HOME :: "string option"
  env_CI :: "string option"
  env_CONTINUOUS_INTEGRATION :: "string option"
  env_BUILD_NUMBER :: "string option"
  env_GITHUB_ACTIONS :: "string option"
  stdin_isatty :: bool
  stdout_isatty :: bool
  files :: "string \<Rightarrow> fsfile"
  JSON_parse :: "string \<Rightarrow> jsval option"
  path_join :: "string list \<Rightarrow> string"
  path_dirname :: "string \<Rightarrow> string"
  uuidv4 :: string
  now :: nat
  answer :: string
  mkdir_ok :: bool
  writeFile_ok :: bool
  posthog_new_ok :: bool
  posthog_capture_ok :: bool
  posthog_shutdown_ok :: bool
  sentry_init_ok :: bool
  sentry_capture_ok :: bool
  sentry_close_ok :: bool

text \<open>
  The observable calls, in the order they are made. \<open>FsWriteFile p v\<close> writes
  \<open>JSON.stringify(v, null, 2)\<close> to \<open>p\<close>; \<open>PostHogCapture\<close> and \<open>SentryInit\<close>
  carry their argument object; \<open>SentryCapture e extras\<close> is \<open>captureException(e)\<close>
  in a scope with these extras, the \<open>Error\<close> being identified by its message.
\<close>

datatype effect =
    FsAccess string
  | FsReadFile string
  | FsMkdir string
  | FsWriteFile jsval jsval
  | ConsoleLog string
  | ConsoleError string error
  | Question string
  | PostHogNew string jsval
  | PostHogCapture jsval
  | PostHogShutdown
  | SentryInit jsval
  | SentryCapture string jsval
  | SentryClose nat

section \<open>constants.ts\<close>

definition posthogKey :: string where
  "posthogKey = ''phc_YourPublicPostHogKey123''"

definition sentryDsn :: string where
  "sentryDsn = ''https://your-public-dsn@sentry.io/12345''"

definition POSTHOG_URL :: string where
  "POSTHOG_URL = ''https://app.posthog.com''"

section \<open>utils.ts\<close>

definition isCiEnvironment :: "world \<Rightarrow> bool" where
  "isCiEnvironment w =
     (env_set (env_CI w) \<or> env_set (env_CONTINUOUS_INTEGRATION w) \<or>
      env_set (env_BUILD_NUMBER w) \<or> env_set (env_GITHUB_ACTIONS w))"

definition isInteractive :: "world \<Rightarrow> bool" where
  "isInteractive w = (stdin_isatty w \<and> stdout_isatty w \<and> \<not> isCiEnvironment w)"

text \<open>\<open>toLowerCase\<close> on the ASCII letters, which decide \<open>startsWith('y')\<close>.\<close>

definition toLowerCase :: "string \<Rightarrow> string" where
  "toLowerCase s =
     map (\<lambda>c. let n = (of_char c :: nat) in if 65 \<le> n \<and> n \<le> 90 then char_of (n + 32) else c) s"

definition startsWith :: "string \<Rightarrow> string \<Rightarrow> bool" where
  "startsWith s p = (take (length p) s = p)"

definition promptYesNo :: "world \<Rightarrow> string \<Rightarrow> bool \<times> effect list" where
  "promptYesNo w prompt =
     (startsWith (toLowerCase (answer w)) ''y'', [Question (prompt @ '' (y/n) '')])"

section \<open>config.ts\<close>

text \<open>\<open>path.join\<close> throws a \<open>TypeError\<close> when \<open>process.env.HOME\<close> is undefined.\<close>

definition getDefaultConfigPath :: "world \<Rightarrow> string \<Rightarrow> error + string" where
  "getDefaultConfigPath w appName =
     (case env_HOME w of
        None \<Rightarrow> Inl (TypeError ''The path argument must be of type string. Received undefined'')
      | Some home \<Rightarrow>
          let configDir =
                (if platform w = ''darwin''
                 then path_join w [home, ''Library'', ''Application Support'', ''com.matter-labs'', appName]
                 else path_join w [home, ''.config'', appName])
          in Inr (path_join w [configDir, ''telemetry.json'']))"

text \<open>\<open>customPath || this.getDefaultConfigPath(appName)\<close>, the first line of \<open>load\<close>.\<close>

definition resolvePath :: "world \<Rightarrow> string \<Rightarrow> string option \<Rightarrow> error + string" where
  "resolvePath w appName customPath =
     (case customPath of
        None \<Rightarrow> getDefaultConfigPath w appName
      | Some p \<Rightarrow> if p = [] then getDefaultConfigPath w appName else Inr p)"

definition consentBanner :: "effect list" where
  "consentBanner =
     [ConsoleLog ''Help us improve zkSync by sending anonymous usage data.'',
      ConsoleLog ''We collect:'',
      ConsoleLog ''  - Basic usage statistics'',
      ConsoleLog ''  - Error reports'',
      ConsoleLog ''  - Platform information'',
      ConsoleLog [],
      ConsoleLog ''We DO NOT collect:'',
      ConsoleLog ''  - Personal information'',
      ConsoleLog ''  - Sensitive configuration'',
      ConsoleLog ''  - Private keys or addresses'']"

definition newConfig :: "world \<Rightarrow> bool \<Rightarrow> string \<Rightarrow> jsval" where
  "newConfig w enabled configPath =
     JObj [(''enabled'', JBool enabled), (''instanceId'', JStr (uuidv4 w)),
           (''createdAt'', JDate (now w)), (''configPath'', JStr configPath)]"

definition saveError :: "error \<Rightarrow> error" where
  "saveError e = TelemetryError (''Failed to save config: '' @ error_text e) ''CONFIG_SAVE_ERROR''"

definition createNew :: "world \<Rightarrow> string \<Rightarrow> string \<Rightarrow> (error + jsval) \<times> effect list" where
  "createNew w appName configPath =
     (if \<not> isInteractive w then (Inr (newConfig w False configPath), [])
      else
        let (enabled, asked) = promptYesNo w ''Would you like to enable telemetry?'';
            config = newConfig w enabled configPath;
            before = consentBanner @ asked @ [FsMkdir (path_dirname w configPath)]
        in if \<not> mkdir_ok w then (Inl (saveError (FsError ''mkdir'')), before)
           else if \<not> writeFile_ok w
           then (Inl (saveError (FsError ''writeFile'')), before @ [FsWriteFile (JStr configPath) config])
           else (Inr config, before @ [FsWriteFile (JStr configPath) config]))"

text \<open>The body of the \<open>try\<close> in \<open>load\<close>: \<open>fs.access\<close>, \<open>fs.readFile\<close>, \<open>JSON.parse\<close>.\<close>

definition load_try :: "world \<Rightarrow> string \<Rightarrow> (error + jsval) \<times> effect list" where
  "load_try w configPath =
     (case files w configPath of
        Absent \<Rightarrow> (Inl (FsError ''access''), [FsAccess configPath])
      | Unreadable \<Rightarrow> (Inl (FsError ''readFile''), [FsAccess configPath, FsReadFile configPath])
      | Content s \<Rightarrow>
          (case JSON_parse w s of
             None \<Rightarrow> (Inl (SyntaxError ''JSON.parse''), [FsAccess configPath, FsReadFile configPath])
           | Some v \<Rightarrow> (Inr v, [FsAccess configPath, FsReadFile configPath])))"

definition load :: "world \<Rightarrow> string \<Rightarrow> string option \<Rightarrow> (error + jsval) \<times> effect list" where
  "load w appName customPath =
     (case resolvePath w appName customPath of
        Inl e \<Rightarrow> (Inl e, [])
      | Inr configPath \<Rightarrow>
          (case load_try w configPath of
             (Inr v, tr) \<Rightarrow> (Inr v, tr)
           | (Inl e, tr) \<Rightarrow>
               (case createNew w appName configPath of (r, tr') \<Rightarrow> (r, tr @ tr'))))"

text \<open>
  \<open>ConfigManager.updateConsent\<close>. The config object is shared with the caller, so
  the object as the call leaves it is returned also when the call throws.
\<close>

definition ConfigManager_updateConsent ::
  "world \<Rightarrow> jsval \<Rightarrow> bool \<Rightarrow> (error + unit) \<times> jsval \<times> effect list" where
  "ConfigManager_updateConsent w config enabled =
     (case get_prop config ''configPath'' of
        Inl e \<Rightarrow> (Inl e, config, [])
      | Inr p \<Rightarrow>
          if \<not> truthy p
          then (Inl (TelemetryError ''No config path specified'' ''CONFIG_PATH_ERROR''), config, [])
          else
            (case set_prop config ''enabled'' (JBool enabled) of
               Inl e \<Rightarrow> (Inl e, config, [])
             | Inr config' \<Rightarrow>
                 if writeFile_ok w then (Inr (), config', [FsWriteFile p config'])
                 else (Inl (FsError ''writeFile''), config', [FsWriteFile p config'])))"

section \<open>telemetry.ts\<close>

text \<open>
  The fields of \<open>class Telemetry\<close>. \<open>posthog\<close> is the optional PostHog client,
  identified by the arguments of its constructor.
\<close>

datatype PostHog = PostHog string jsval

record client =
  config :: jsval
  posthog :: "PostHog option"
  sentryInitialized :: bool
  appName :: string

type_synonym result = "(error + unit) \<times> client \<times> effect list"

definition posthogOptions :: jsval where
  "posthogOptions = JObj [(''host'', JStr POSTHOG_URL)]"

text \<open>
  \<open>try { new PostHog(key, {host}) } catch (error) { console.error(msg, error) }\<close>,
  written out twice in the source, in \<open>reconnectPostHog\<close> and in \<open>initialize\<close>.
\<close>

definition newPostHog :: "world \<Rightarrow> string \<Rightarrow> PostHog option \<times> effect list" where
  "newPostHog w msg =
     (if posthog_new_ok w
      then (Some (PostHog posthogKey posthogOptions), [PostHogNew posthogKey posthogOptions])
      else (None, [PostHogNew posthogKey posthogOptions,
                   ConsoleError msg (BackendError ''new PostHog'')]))"

definition sentryOptions :: "world \<Rightarrow> string \<Rightarrow> jsval" where
  "sentryOptions w app =
     JObj [(''dsn'', JStr sentryDsn),
           (''release'', opt_str (npm_package_version w)),
           (''initialScope'',
              JObj [(''tags'',
                 JObj [(''app'', JStr app),
                       (''version'', JStr (or_default (npm_package_version w) ''unknown'')),
                       (''platform'', JStr (platform w))])])]"

text \<open>
  \<open>try { Sentry.init({...}); initialized = true } catch (error) { console.error(msg, error) }\<close>,
  also written out twice.
\<close>

definition initSentry :: "world \<Rightarrow> string \<Rightarrow> string \<Rightarrow> bool \<times> effect list" where
  "initSentry w app msg =
     (if sentry_init_ok w then (True, [SentryInit (sentryOptions w app)])
      else (False, [SentryInit (sentryOptions w app),
                    ConsoleError msg (BackendError ''Sentry.init'')]))"

definition reconnectPostHog :: "world \<Rightarrow> client \<Rightarrow> result" where
  "reconnectPostHog w c =
     (case get_prop (config c) ''enabled'' of
        Inl e \<Rightarrow> (Inl e, c, [])
      | Inr en \<Rightarrow>
          if truthy en \<and> posthog c = None
          then (case newPostHog w ''Failed to reconnect to PostHog:'' of
                  (None, tr) \<Rightarrow> (Inr (), c, tr)
                | (Some ph, tr) \<Rightarrow> (Inr (), c\<lparr>posthog := Some ph\<rparr>, tr))
          else (Inr (), c, []))"

definition reconnectSentry :: "world \<Rightarrow> client \<Rightarrow> result" where
  "reconnectSentry w c =
     (case get_prop (config c) ''enabled'' of
        Inl e \<Rightarrow> (Inl e, c, [])
      | Inr en \<Rightarrow>
          if truthy en \<and> \<not> sentryInitialized c
          then (case initSentry w (appName c) ''Failed to reconnect to Sentry:'' of
                  (ok, tr) \<Rightarrow> (Inr (), (if ok then c\<lparr>sentryInitialized := True\<rparr> else c), tr))
          else (Inr (), c, []))"

definition initialize ::
  "world \<Rightarrow> string \<Rightarrow> string option \<Rightarrow> (error + client) \<times> effect list" where
  "initialize w app customConfigPath =
     (case load w app customConfigPath of
        (Inl e, tr) \<Rightarrow> (Inl e, tr)
      | (Inr cfg, tr) \<Rightarrow>
          (case get_prop cfg ''enabled'' of
             Inl e \<Rightarrow> (Inl e, tr)
           | Inr en \<Rightarrow>
               if truthy en
               then (case newPostHog w ''Failed to initialize PostHog:'' of
                       (posthogClient, tr1) \<Rightarrow>
                     (case initSentry w app ''Failed to initialize Sentry:'' of
                       (sentryOk, tr2) \<Rightarrow>
                         (Inr \<lparr>config = cfg, posthog = posthogClient,
                               sentryInitialized = sentryOk, appName = app\<rparr>,
                          tr @ tr1 @ tr2)))
               else (Inr \<lparr>config = cfg, posthog = None,
                          sentryInitialized = False, appName = app\<rparr>, tr)))"

text \<open>The body of the \<open>try\<close> in \<open>trackEvent\<close>, entered with \<open>this.posthog\<close> present.\<close>

definition trackEvent_try ::
  "world \<Rightarrow> client \<Rightarrow> string \<Rightarrow> (string \<times> jsval) list \<Rightarrow> (error + unit) \<times> effect list" where
  "trackEvent_try w c eventName properties =
     (case get_prop (config c) ''instanceId'' of
        Inl e \<Rightarrow> (Inl e, [])
      | Inr instanceId \<Rightarrow>
          let enrichedProperties =
                obj_literal (properties @
                  [(''distinct_id'', instanceId),
                   (''platform'', JStr (platform w)),
                   (''version'', JStr (or_default (npm_package_version w) ''unknown'')),
                   (''node_version'', JStr (node_version w))]);
              payload = JObj [(''distinctId'', instanceId), (''event'', JStr eventName),
                              (''properties'', JObj enrichedProperties)]
          in if posthog_capture_ok w then (Inr (), [PostHogCapture payload])
             else (Inl (BackendError ''posthog.capture''), [PostHogCapture payload]))"

definition trackingError :: "error \<Rightarrow> error" where
  "trackingError e = TelemetryError (''Failed to track event: '' @ error_text e) ''EVENT_TRACKING_ERROR''"

definition trackEvent :: "world \<Rightarrow> client \<Rightarrow> string \<Rightarrow> (string \<times> jsval) list \<Rightarrow> result" where
  "trackEvent w c eventName properties =
     (case get_prop (config c) ''enabled'' of
        Inl e \<Rightarrow> (Inl e, c, [])
      | Inr en \<Rightarrow>
          if \<not> truthy en then (Inr (), c, [])
          else
            (case (if posthog c = None then reconnectPostHog w c else (Inr (), c, [])) of
               (Inl e, c1, tr1) \<Rightarrow> (Inl e, c1, tr1)
             | (Inr u, c1, tr1) \<Rightarrow>
                 if posthog c1 = None then (Inr (), c1, tr1)
                 else
                   (case trackEvent_try w c1 eventName properties of
                      (Inl e, tr2) \<Rightarrow> (Inl (trackingError e), c1, tr1 @ tr2)
                    | (Inr u', tr2) \<Rightarrow> (Inr (), c1, tr1 @ tr2))))"

text \<open>
  \<open>trackError\<close> is synchronous. \<open>reconnectSentry\<close> is an \<open>async\<close> function with no
  \<open>await\<close> in its body, so the unawaited call runs the whole body before the test
  of \<open>sentryInitialized\<close> that follows it; a rejection goes to the \<open>.catch\<close>
  handler, which logs it. \<open>Sentry.withScope\<close> and what it calls are in no
  \<open>try\<close>.
\<close>

definition trackError :: "world \<Rightarrow> client \<Rightarrow> string \<Rightarrow> (string \<times> jsval) list \<Rightarrow> result" where
  "trackError w c err context =
     (case get_prop (config c) ''enabled'' of
        Inl e \<Rightarrow> (Inl e, c, [])
      | Inr en \<Rightarrow>
          if \<not> truthy en then (Inr (), c, [])
          else
            (case (if \<not> sentryInitialized c
                   then (case reconnectSentry w c of
                           (Inl e, c', tr) \<Rightarrow> (c', tr @ [ConsoleError ''Failed to reconnect to Sentry:'' e])
                         | (Inr u, c', tr) \<Rightarrow> (c', tr))
                   else (c, [])) of
               (c1, tr1) \<Rightarrow>
                 if \<not> sentryInitialized c1 then (Inr (), c1, tr1)
                 else
                   (case get_prop (config c1) ''instanceId'' of
                      Inl e \<Rightarrow> (Inl e, c1, tr1)
                    | Inr instanceId \<Rightarrow>
                        let extras =
                              JObj (obj_literal (context @
                                [(''platform'', JStr (platform w)),
                                 (''version'', opt_str (npm_package_version w)),
                                 (''instanceId'', instanceId)]))
                        in if sentry_capture_ok w
                           then (Inr (), c1, tr1 @ [SentryCapture err extras])
                           else (Inl (BackendError ''Sentry.captureException''), c1,
                                 tr1 @ [SentryCapture err extras]))))"

text \<open>
  \<open>Telemetry.updateConsent\<close>. \<open>Promise.all\<close> is given the promises of both
  \<open>reconnect\<close> calls, which have both run by then; it rejects with the first
  rejection.
\<close>

definition updateConsent :: "world \<Rightarrow> client \<Rightarrow> bool \<Rightarrow> result" where
  "updateConsent w c enabled =
     (case ConfigManager_updateConsent w (config c) enabled of
        (Inl e, cfg, tr) \<Rightarrow> (Inl e, c\<lparr>config := cfg\<rparr>, tr)
      | (Inr u, cfg, tr) \<Rightarrow>
          (case set_prop cfg ''enabled'' (JBool enabled) of
             Inl e \<Rightarrow> (Inl e, c\<lparr>config := cfg\<rparr>, tr)
           | Inr cfg' \<Rightarrow>
               let c1 = c\<lparr>config := cfg'\<rparr>
               in if enabled
                  then (case reconnectPostHog w c1 of
                          (r1, c2, tr1) \<Rightarrow>
                        (case reconnectSentry w c2 of
                          (r2, c3, tr2) \<Rightarrow>
                            ((case r1 of Inl e \<Rightarrow> Inl e | Inr u' \<Rightarrow> r2), c3, tr @ tr1 @ tr2)))
                  else (Inr (), c1, tr)))"

definition shutdown :: "world \<Rightarrow> client \<Rightarrow> result" where
  "shutdown w c =
     (case (case posthog c of
              None \<Rightarrow> (Inr (), c, [])
            | Some ph \<Rightarrow>
                if posthog_shutdown_ok w then (Inr (), c\<lparr>posthog := None\<rparr>, [PostHogShutdown])
                else (Inl (BackendError ''posthog.shutdown''), c, [PostHogShutdown])) of
        (Inl e, c1, tr1) \<Rightarrow> (Inl e, c1, tr1)
      | (Inr u, c1, tr1) \<Rightarrow>
          if sentryInitialized c1
          then (if sentry_close_ok w
                then (Inr (), c1\<lparr>sentryInitialized := False\<rparr>, tr1 @ [SentryClose 2000])
                else (Inl (BackendError ''Sentry.close''), c1, tr1 @ [SentryClose 2000]))
          else (Inr (), c1, tr1))"

section \<open>Reading the trace\<close>

fun isPostHogNew :: "effect \<Rightarrow> bool" where
  "isPostHogNew (PostHogNew k opts) = True"
| "isPostHogNew e = False"

fun isPostHogCapture :: "effect \<Rightarrow> bool" where
  "isPostHogCapture (PostHogCapture p) = True"
| "isPostHogCapture e = False"

text \<open>The client and the trace that an operation leaves.\<close>

definition client_of :: "result \<Rightarrow> client" where
  "client_of r = fst (snd r)"

definition trace_of :: "result \<Rightarrow> effect list" where
  "trace_of r = snd (snd r)"

section \<open>A concrete environment and client\<close>

text \<open>
  An interactive Linux terminal outside CI, no config file on disk, the user
  answering \<open>y\<close>, every external call succeeding.
\<close>

definition world0 :: world where
  "world0 =
     \<lparr>platform = ''linux'', node_version = ''v20.11.0'', npm_package_version = Some ''1.0.0'',
      env_HOME = Some ''/home/user'', env_CI = None, env_CONTINUOUS_INTEGRATION = None,
      env_BUILD_NUMBER = None, env_GITHUB_ACTIONS = None,
      stdin_isatty = True, stdout_isatty = True,
      files = (\<lambda>p. Absent),
      JSON_parse = (\<lambda>s. if s = ''42'' then Some (JNum 42) else None),
      path_join = (\<lambda>xs. foldr (\<lambda>a b. if b = [] then a else a @ ''/'' @ b) xs []),
      path_dirname = (\<lambda>p. rev (drop 1 (dropWhile (\<lambda>c. c \<noteq> CHR ''/'') (rev p)))),
      uuidv4 = ''3f2b8c1e-0000-4000-8000-000000000001'', now = 0, answer = ''y'',
      mkdir_ok = True, writeFile_ok = True,
      posthog_new_ok = True, posthog_capture_ok = True, posthog_shutdown_ok = True,
      sentry_init_ok = True, sentry_capture_ok = True, sentry_close_ok = True\<rparr>"

definition config0 :: jsval where
  "config0 =
     JObj [(''enabled'', JBool True), (''instanceId'', JStr ''id-1''),
           (''createdAt'', JDate 0), (''configPath'', JStr ''/tmp/telemetry.json'')]"

text \<open>An enabled client with both connectors up, as \<open>initialize\<close> builds it.\<close>

definition client0 :: client where
  "client0 =
     \<lparr>config = config0, posthog = Some (PostHog posthogKey posthogOptions),
      sentryInitialized = True, appName = ''tool''\<rparr>"

text \<open>A config object without \<open>configPath\<close>, and a client that holds it.\<close>

definition config_nopath :: jsval where
  "config_nopath = JObj [(''enabled'', JBool True), (''instanceId'', JStr ''id-1'')]"

definition client_nopath :: client where
  "client_nopath =
     \<lparr>config = config_nopath, posthog = None, sentryInitialized = False, appName = ''tool''\<rparr>"

section \<open>Helper facts\<close>

text \<open>A value whose property can be read is neither \<open>null\<close> nor \<open>undefined\<close>.\<close>

lemma get_prop_readable: "get_prop v k = Inr x \<Longrightarrow> \<exists>y. get_prop v k' = Inr y"
  by (cases v) auto

lemma get_prop_error_kind: "get_prop v k = Inl x \<Longrightarrow> \<exists>m. x = TypeError m"
  by (cases v) auto

lemma set_prop_error_kind: "set_prop v k y = Inl x \<Longrightarrow> \<exists>m. x = TypeError m"
  by (cases v) auto

lemma reconnectPostHog_enabled:
  assumes "get_prop (config c) ''enabled'' = Inr en" "truthy en" "posthog c = None"
  shows "reconnectPostHog w c =
     (if posthog_new_ok w
      then (Inr (), c\<lparr>posthog := Some (PostHog posthogKey posthogOptions)\<rparr>,
            [PostHogNew posthogKey posthogOptions])
      else (Inr (), c, [PostHogNew posthogKey posthogOptions,
              ConsoleError ''Failed to reconnect to PostHog:'' (BackendError ''new PostHog'')]))"
  using assms by (simp add: reconnectPostHog_def newPostHog_def)

lemma reconnectSentry_enabled:
  assumes "get_prop (config c) ''enabled'' = Inr en" "truthy en" "\<not> sentryInitialized c"
  shows "reconnectSentry w c =
     (if sentry_init_ok w
      then (Inr (), c\<lparr>sentryInitialized := True\<rparr>, [SentryInit (sentryOptions w (appName c))])
      else (Inr (), c, [SentryInit (sentryOptions w (appName c)),
              ConsoleError ''Failed to reconnect to Sentry:'' (BackendError ''Sentry.init'')]))"
  using assms by (simp add: reconnectSentry_def initSentry_def)

lemma reconnectPostHog_error_kind:
  "fst (reconnectPostHog w c) = Inl x \<Longrightarrow> \<exists>m. x = TypeError m"
  by (cases "config c")
     (auto simp add: reconnectPostHog_def newPostHog_def split: if_splits sum.splits prod.splits option.splits)

lemma reconnectSentry_error_kind:
  "fst (reconnectSentry w c) = Inl x \<Longrightarrow> \<exists>m. x = TypeError m"
  by (cases "config c")
     (auto simp add: reconnectSentry_def initSentry_def split: if_splits sum.splits prod.splits)

lemma createNew_save_failure:
  assumes "isInteractive w" "\<not> (mkdir_ok w \<and> writeFile_ok w)"
  shows "fst (createNew w app p) =
           Inl (saveError (if \<not> mkdir_ok w then FsError ''mkdir'' else FsError ''writeFile''))"
  using assms by (auto simp add: createNew_def promptYesNo_def Let_def)

lemma createNew_error_kind:
  "fst (createNew w app p) = Inl x \<Longrightarrow> \<exists>m. x = TelemetryError m ''CONFIG_SAVE_ERROR''"
  by (auto simp add: createNew_def promptYesNo_def saveError_def Let_def split: if_splits)

lemma load_error_kind:
  assumes "fst (load w app cp) = Inl x"
  shows "(\<exists>m. x = TypeError m) \<or> (\<exists>m. x = TelemetryError m ''CONFIG_SAVE_ERROR'')"
proof (cases "resolvePath w app cp")
  case (Inl e)
  then show ?thesis using assms
    by (auto simp add: load_def resolvePath_def getDefaultConfigPath_def Let_def
        split: option.splits if_splits)
next
  case (Inr p)
  then show ?thesis using assms createNew_error_kind [of w app p x]
    by (auto simp add: load_def split: prod.splits sum.splits)
qed

lemma initialize_error_kind:
  assumes "fst (initialize w app cp) = Inl x"
  shows "(\<exists>m. x = TypeError m) \<or> (\<exists>m. x = TelemetryError m ''CONFIG_SAVE_ERROR'')"
proof -
  obtain r tr where l: "load w app cp = (r, tr)" by (cases "load w app cp") auto
  show ?thesis
  proof (cases r)
    case (Inl e)
    then show ?thesis using assms l load_error_kind [of w app cp x]
      by (simp add: initialize_def)
  next
    case (Inr cfg)
    then show ?thesis using assms l get_prop_error_kind [of cfg "''enabled''" x]
      by (auto simp add: initialize_def newPostHog_def initSentry_def
          split: sum.splits if_splits prod.splits)
  qed
qed



lemma ConfigManager_updateConsent_error_kind:
  "fst (ConfigManager_updateConsent w cfg b) = Inl x \<Longrightarrow>
     (\<exists>m. x = TypeError m) \<or> (\<exists>m. x = FsError m) \<or>
     x = TelemetryError ''No config path specified'' ''CONFIG_PATH_ERROR''"
  by (cases cfg)
     (auto simp add: ConfigManager_updateConsent_def split: if_splits sum.splits)

lemma updateConsent_error_kind:
  assumes "fst (updateConsent w c b) = Inl x"
  shows "(\<exists>m. x = TypeError m) \<or> (\<exists>m. x = FsError m) \<or>
         x = TelemetryError ''No config path specified'' ''CONFIG_PATH_ERROR''"
proof -
  obtain r cfg tr where cm: "ConfigManager_updateConsent w (config c) b = (r, cfg, tr)"
    by (cases "ConfigManager_updateConsent w (config c) b") auto
  show ?thesis
  proof (cases r)
    case (Inl e)
    then show ?thesis
      using assms cm ConfigManager_updateConsent_error_kind [of w "config c" b x]
      by (simp add: updateConsent_def)
  next
    case (Inr u)
    show ?thesis
    proof (cases "set_prop cfg ''enabled'' (JBool b)")
      case (Inl e)
      then show ?thesis
        using assms cm Inr set_prop_error_kind [of cfg "''enabled''" "JBool b" x]
        by (simp add: updateConsent_def)
    next
      case sp: (Inr cfg')
      show ?thesis
      proof (cases b)
        case False
        then show ?thesis using assms cm Inr sp by (simp add: updateConsent_def)
      next
        case True
        obtain r1 c2 tr1 where r1: "reconnectPostHog w (c\<lparr>config := cfg'\<rparr>) = (r1, c2, tr1)"
          by (cases "reconnectPostHog w (c\<lparr>config := cfg'\<rparr>)") auto
        obtain r2 c3 tr2 where r2: "reconnectSentry w c2 = (r2, c3, tr2)"
          by (cases "reconnectSentry w c2") auto
        have "x = (case r1 of Inl e \<Rightarrow> e | Inr u' \<Rightarrow> (case r2 of Inl e \<Rightarrow> e | Inr _ \<Rightarrow> x))
              \<and> (isl r1 \<or> isl r2)"
          using assms cm Inr sp True r1 r2
          by (auto simp add: updateConsent_def Let_def split: sum.splits)
        then show ?thesis
          using reconnectPostHog_error_kind [of w "c\<lparr>config := cfg'\<rparr>"]
            reconnectSentry_error_kind [of w c2] r1 r2
          by (auto split: sum.splits simp: isl_def)
      qed
    qed
  qed
qed

lemma trackError_error_kind:
  "fst (trackError w c e ctx) = Inl x \<Longrightarrow> (\<exists>m. x = TypeError m) \<or> (\<exists>m. x = BackendError m)"
  by (cases "config c")
     (auto simp add: trackError_def reconnectSentry_def initSentry_def Let_def
       split: if_splits sum.splits prod.splits)

lemma shutdown_error_kind:
  "fst (shutdown w c) = Inl x \<Longrightarrow> \<exists>m. x = BackendError m"
  by (auto simp add: shutdown_def split: option.splits if_splits)

text \<open>An object literal holds, for each key, the value defined last.\<close>

lemma map_of_foldl_update:
  "map_of (foldl (\<lambda>acc kv. AList.update (fst kv) (snd kv) acc) acc0 kvs) k =
     (case map_of (rev kvs) k of None \<Rightarrow> map_of acc0 k | Some v \<Rightarrow> Some v)"
proof (induction kvs arbitrary: acc0)
  case Nil
  then show ?case by simp
next
  case (Cons kv kvs)
  show ?case
    by (cases kv) (auto simp add: Cons.IH update_conv' map_add_def split: option.splits)
qed

lemma map_of_obj_literal:
  "map_of (obj_literal kvs) k = map_of (rev kvs) k"
  by (simp add: obj_literal_def map_of_foldl_update split: option.splits)

lemma map_of_rev_distinct:
  "distinct (map fst kvs) \<Longrightarrow> map_of (rev kvs) = map_of kvs"
  by (subst map_of_inject_set) (simp_all add: distinct_map)

text \<open>
  The private constructor is called by \<open>initialize\<close> only, after \<open>config.enabled\<close>
  has been read: the config of a client is never \<open>null\<close> or \<open>undefined\<close>.
\<close>

lemma initialize_config_readable:
  assumes "fst (initialize w app cp) = Inr c"
  shows "\<exists>en. get_prop (config c) ''enabled'' = Inr en"
  using assms
  by (auto simp add: initialize_def split: prod.splits sum.splits if_splits)

section \<open>The claims\<close>

subsection \<open>C1: sanitizing of properties and context\<close>

text \<open>
  Claim C1 says that \<open>trackEvent\<close> and \<open>trackError\<close> replace the caller's mapping by
  one without the entries whose lowercased key contains \<open>key\<close>, \<open>password\<close> or
  \<open>token\<close>. Neither function filters anything: both spread the mapping into the
  payload as it is. On an enabled, connected client, an event with the property
  \<open>api_key\<close> and an error with the context entry \<open>password\<close> reach PostHog and
  Sentry with these entries and their values.
\<close>

theorem trackEvent_trackError_forward_sensitive_keys:
  "trackEvent world0 client0 ''wallet_connected'' [(''api_key'', JStr ''secret'')] =
     (Inr (), client0,
      [PostHogCapture (JObj [(''distinctId'', JStr ''id-1''), (''event'', JStr ''wallet_connected''),
         (''properties'', JObj [(''api_key'', JStr ''secret''), (''distinct_id'', JStr ''id-1''),
            (''platform'', JStr ''linux''), (''version'', JStr ''1.0.0''),
            (''node_version'', JStr ''v20.11.0'')])])])
   \<and> trackError world0 client0 ''boom'' [(''password'', JStr ''hunter2'')] =
     (Inr (), client0,
      [SentryCapture ''boom'' (JObj [(''password'', JStr ''hunter2''), (''platform'', JStr ''linux''),
         (''version'', JStr ''1.0.0''), (''instanceId'', JStr ''id-1'')])])"
  by (simp add: trackEvent_def trackEvent_try_def trackError_def world0_def client0_def config0_def
      obj_literal_def or_default_def opt_str_def)

text \<open>
  The same holds at every input: on an enabled, connected client each property of the
  caller, whatever its key (one of the four keys that \<open>trackEvent\<close> sets itself
  apart), is in the properties that \<open>capture\<close> receives, with its value.
\<close>

lemma trackEvent_forwards_every_property:
  assumes "get_prop (config c) ''enabled'' = Inr en" "truthy en" "posthog c = Some ph"
    and "distinct (map fst properties)" "(k, v) \<in> set properties"
    and "k \<notin> {''distinct_id'', ''platform'', ''version'', ''node_version''}"
  shows "\<exists>distinctId enriched.
           trace_of (trackEvent w c eventName properties) =
             [PostHogCapture (JObj [(''distinctId'', distinctId), (''event'', JStr eventName),
                                    (''properties'', JObj enriched)])]
           \<and> map_of enriched k = Some v"
proof -
  obtain iid where iid: "get_prop (config c) ''instanceId'' = Inr iid"
    using assms(1) by (cases "config c") auto
  have "map_of (rev properties) k = Some v"
    using assms(4,5) by (simp add: map_of_rev_distinct)
  then show ?thesis
    using assms iid
    by (auto simp add: trackEvent_def trackEvent_try_def trace_of_def Let_def map_of_obj_literal)
qed

subsection \<open>C2: failure to persist a new consent record\<close>

text \<open>
  Claim C2, amended. When no config can be read at the resolved path, the process is
  interactive, and creating the directory or writing the file fails, \<open>createNew\<close>
  throws a \<open>TelemetryError\<close> with code \<open>CONFIG_SAVE_ERROR\<close>; \<open>load\<close> and
  \<open>initialize\<close> have no handler for it, so \<open>initialize\<close> fails with that error and
  returns no client.
\<close>

theorem initialize_propagates_save_error:
  assumes "resolvePath w app customPath = Inr p" "isl (fst (load_try w p))"
    "isInteractive w" "\<not> (mkdir_ok w \<and> writeFile_ok w)"
  shows "fst (load w app customPath) =
           Inl (TelemetryError (''Failed to save config: '' @
                  error_text (if \<not> mkdir_ok w then FsError ''mkdir'' else FsError ''writeFile''))
                ''CONFIG_SAVE_ERROR'')
       \<and> fst (initialize w app customPath) =
           Inl (TelemetryError (''Failed to save config: '' @
                  error_text (if \<not> mkdir_ok w then FsError ''mkdir'' else FsError ''writeFile''))
                ''CONFIG_SAVE_ERROR'')"
proof -
  obtain e tr where lt: "load_try w p = (Inl e, tr)"
    using assms(2) by (cases "load_try w p") (auto simp: isl_def)
  have ld: "fst (load w app customPath) = fst (createNew w app p)"
    using assms(1) lt by (simp add: load_def split: prod.splits)
  show ?thesis
    using ld createNew_save_failure [OF assms(3,4), of app p]
    by (auto simp add: initialize_def saveError_def split: prod.splits sum.splits)
qed

theorem initialize_propagates_save_error_witness:
  "resolvePath (world0\<lparr>mkdir_ok := False\<rparr>) ''tool'' None = Inr ''/home/user/.config/tool/telemetry.json''
   \<and> isl (fst (load_try (world0\<lparr>mkdir_ok := False\<rparr>) ''/home/user/.config/tool/telemetry.json''))
   \<and> isInteractive (world0\<lparr>mkdir_ok := False\<rparr>)
   \<and> \<not> (mkdir_ok (world0\<lparr>mkdir_ok := False\<rparr>) \<and> writeFile_ok (world0\<lparr>mkdir_ok := False\<rparr>))
   \<and> fst (initialize (world0\<lparr>mkdir_ok := False\<rparr>) ''tool'' None) =
       Inl (TelemetryError ''Failed to save config: Error: mkdir'' ''CONFIG_SAVE_ERROR'')"
  using initialize_propagates_save_error [of "world0\<lparr>mkdir_ok := False\<rparr>" "''tool''" None
      "''/home/user/.config/tool/telemetry.json''"]
  by (simp add: resolvePath_def getDefaultConfigPath_def load_try_def isInteractive_def
      isCiEnvironment_def env_set_def world0_def)

text \<open>
  The claim as stated promises a usable, disabled client. With a failing
  \<open>fs.writeFile\<close>, \<open>initialize\<close> returns the error instead.
\<close>

theorem initialize_save_failure_counterexample:
  "fst (initialize (world0\<lparr>writeFile_ok := False\<rparr>) ''tool'' None) =
     Inl (TelemetryError ''Failed to save config: Error: writeFile'' ''CONFIG_SAVE_ERROR'')"
  by (simp add: initialize_def load_def load_try_def resolvePath_def getDefaultConfigPath_def
      createNew_def isInteractive_def isCiEnvironment_def env_set_def promptYesNo_def
      saveError_def world0_def Let_def)

subsection \<open>C3: the connectors after shutdown\<close>

text \<open>
  Claim C3, amended. Once \<open>shutdown\<close> has returned normally, both connector handles
  are released (\<open>posthog\<close> absent, \<open>sentryInitialized\<close> false) and the config is
  untouched. The released state is the disconnected state, not a terminal one: on a
  client whose config is not enabled, a later \<open>trackEvent\<close> or \<open>trackError\<close> does
  nothing and leaves the handles released; on a client whose config is enabled,
  a later \<open>trackEvent\<close> reconnects PostHog exactly when the constructor succeeds and
  then dispatches through the new client, and a later \<open>trackError\<close> initializes
  Sentry again exactly when \<open>Sentry.init\<close> succeeds.
\<close>

theorem shutdown_releases_handles_not_terminal:
  assumes "shutdown w c = (Inr (), c', tr)"
  shows "posthog c' = None \<and> \<not> sentryInitialized c' \<and> config c' = config c
       \<and> (\<forall>en w2 name props err ctx.
             get_prop (config c') ''enabled'' = Inr en \<longrightarrow>
               (\<not> truthy en \<longrightarrow>
                   trackEvent w2 c' name props = (Inr (), c', [])
                 \<and> trackError w2 c' err ctx = (Inr (), c', []))
             \<and> (truthy en \<longrightarrow>
                   posthog (client_of (trackEvent w2 c' name props)) =
                     (if posthog_new_ok w2 then Some (PostHog posthogKey posthogOptions) else None)
                 \<and> sentryInitialized (client_of (trackError w2 c' err ctx)) = sentry_init_ok w2
                 \<and> (posthog_new_ok w2 \<longrightarrow>
                       filter isPostHogCapture (trace_of (trackEvent w2 c' name props)) \<noteq> [])))"
proof -
  have rel: "posthog c' = None" "\<not> sentryInitialized c'" "config c' = config c"
    using assms by (auto simp add: shutdown_def split: option.splits if_splits)
  have later: "(\<not> truthy en \<longrightarrow>
                   trackEvent w2 c' name props = (Inr (), c', [])
                 \<and> trackError w2 c' err ctx = (Inr (), c', []))
             \<and> (truthy en \<longrightarrow>
                   posthog (client_of (trackEvent w2 c' name props)) =
                     (if posthog_new_ok w2 then Some (PostHog posthogKey posthogOptions) else None)
                 \<and> sentryInitialized (client_of (trackError w2 c' err ctx)) = sentry_init_ok w2
                 \<and> (posthog_new_ok w2 \<longrightarrow>
                       filter isPostHogCapture (trace_of (trackEvent w2 c' name props)) \<noteq> []))"
    if en: "get_prop (config c') ''enabled'' = Inr en" for en w2 name props err ctx
  proof -
    obtain iid where iid: "get_prop (config c') ''instanceId'' = Inr iid"
      using get_prop_readable [OF en] by blast
    show ?thesis
      using en iid rel(1,2)
      by (auto simp add: trackEvent_def trackError_def reconnectPostHog_enabled
          reconnectSentry_enabled trackEvent_try_def client_of_def trace_of_def Let_def)
  qed
  show ?thesis using rel later by blast
qed

theorem shutdown_releases_handles_not_terminal_witness:
  "shutdown world0 client0 =
     (Inr (), client0\<lparr>posthog := None, sentryInitialized := False\<rparr>, [PostHogShutdown, SentryClose 2000])
   \<and> get_prop (config (client0\<lparr>posthog := None, sentryInitialized := False\<rparr>)) ''enabled'' = Inr (JBool True)
   \<and> truthy (JBool True) \<and> posthog_new_ok world0
   \<and> posthog (client_of (trackEvent world0 (client0\<lparr>posthog := None, sentryInitialized := False\<rparr>) ''deploy'' []))
       = Some (PostHog posthogKey posthogOptions)
   \<and> filter isPostHogCapture
       (trace_of (trackEvent world0 (client0\<lparr>posthog := None, sentryInitialized := False\<rparr>) ''deploy'' [])) \<noteq> []"
proof -
  have s: "shutdown world0 client0 =
     (Inr (), client0\<lparr>posthog := None, sentryInitialized := False\<rparr>, [PostHogShutdown, SentryClose 2000])"
    by (simp add: shutdown_def client0_def world0_def)
  have e: "get_prop (config (client0\<lparr>posthog := None, sentryInitialized := False\<rparr>)) ''enabled'' = Inr (JBool True)"
    by (simp add: client0_def config0_def)
  have p: "posthog_new_ok world0" by (simp add: world0_def)
  show ?thesis
    using shutdown_releases_handles_not_terminal [OF s] s e p by simp
qed

text \<open>
  The claim as stated says that no later operation reconnects or dispatches. After
  \<open>shutdown\<close> of an enabled client, \<open>trackEvent\<close> constructs a new PostHog client
  and captures the event through it.
\<close>

theorem shutdown_then_trackEvent_counterexample:
  "posthog (client_of (shutdown world0 client0)) = None
   \<and> posthog (client_of (trackEvent world0 (client_of (shutdown world0 client0)) ''after_close'' []))
       = Some (PostHog posthogKey posthogOptions)
   \<and> trace_of (trackEvent world0 (client_of (shutdown world0 client0)) ''after_close'' []) =
       [PostHogNew posthogKey posthogOptions,
        PostHogCapture (JObj [(''distinctId'', JStr ''id-1''), (''event'', JStr ''after_close''),
          (''properties'', JObj [(''distinct_id'', JStr ''id-1''), (''platform'', JStr ''linux''),
             (''version'', JStr ''1.0.0''), (''node_version'', JStr ''v20.11.0'')])])]"
  by (simp add: shutdown_def trackEvent_def reconnectPostHog_def newPostHog_def trackEvent_try_def
      client_of_def trace_of_def obj_literal_def or_default_def world0_def client0_def config0_def)

subsection \<open>C4: the typed error of trackEvent\<close>

text \<open>
  Claim C4, amended. When \<open>trackEvent\<close> is called on an enabled client whose
  PostHog client is present and \<open>capture\<close> throws, \<open>trackEvent\<close> throws a
  \<open>TelemetryError\<close> with code \<open>EVENT_TRACKING_ERROR\<close>. No other public operation
  ever throws an error with that code, and \<open>initialize\<close> and \<open>updateConsent\<close> never
  let a backend exception through. (Nothing is promised for \<open>shutdown\<close> and
  \<open>trackError\<close>, whose backend calls are in no \<open>try\<close>.)
\<close>

theorem trackEvent_dispatch_failure_typed:
  assumes "get_prop (config c) ''enabled'' = Inr en" "truthy en" "posthog c = Some ph"
    "\<not> posthog_capture_ok w"
  shows "fst (trackEvent w c eventName properties) =
           Inl (TelemetryError ''Failed to track event: Error: posthog.capture''
                  ''EVENT_TRACKING_ERROR'')
       \<and> (\<forall>w' c' e ctx m. fst (trackError w' c' e ctx) \<noteq> Inl (TelemetryError m ''EVENT_TRACKING_ERROR''))
       \<and> (\<forall>w' c' b m. fst (updateConsent w' c' b) \<noteq> Inl (TelemetryError m ''EVENT_TRACKING_ERROR''))
       \<and> (\<forall>w' c' m. fst (shutdown w' c') \<noteq> Inl (TelemetryError m ''EVENT_TRACKING_ERROR''))
       \<and> (\<forall>w' app cp m. fst (initialize w' app cp) \<noteq> Inl (TelemetryError m ''EVENT_TRACKING_ERROR''))
       \<and> (\<forall>w' app cp m. fst (initialize w' app cp) \<noteq> Inl (BackendError m))
       \<and> (\<forall>w' c' b m. fst (updateConsent w' c' b) \<noteq> Inl (BackendError m))"
proof -
  obtain iid where iid: "get_prop (config c) ''instanceId'' = Inr iid"
    using get_prop_readable [OF assms(1)] by blast
  have a: "fst (trackEvent w c eventName properties) =
           Inl (TelemetryError ''Failed to track event: Error: posthog.capture''
                  ''EVENT_TRACKING_ERROR'')"
    using assms iid by (simp add: trackEvent_def trackEvent_try_def trackingError_def Let_def)
  have b: "fst (trackError w' c' e ctx) \<noteq> Inl (TelemetryError m ''EVENT_TRACKING_ERROR'')"
    for w' c' e ctx m
    using trackError_error_kind [of w' c' e ctx] by auto
  have c: "fst (updateConsent w' c' b) \<noteq> Inl (TelemetryError m ''EVENT_TRACKING_ERROR'')"
    "fst (updateConsent w' c' b) \<noteq> Inl (BackendError m)" for w' c' b m
    using updateConsent_error_kind [of w' c' b] by auto
  have d: "fst (shutdown w' c') \<noteq> Inl (TelemetryError m ''EVENT_TRACKING_ERROR'')" for w' c' m
    using shutdown_error_kind [of w' c'] by auto
  have e: "fst (initialize w' app cp) \<noteq> Inl (TelemetryError m ''EVENT_TRACKING_ERROR'')"
    "fst (initialize w' app cp) \<noteq> Inl (BackendError m)" for w' app cp m
    using initialize_error_kind [of w' app cp] by auto
  show ?thesis using a b c d e by blast
qed

theorem trackEvent_dispatch_failure_typed_witness:
  "get_prop (config client0) ''enabled'' = Inr (JBool True) \<and> truthy (JBool True)
   \<and> posthog client0 = Some (PostHog posthogKey posthogOptions)
   \<and> \<not> posthog_capture_ok (world0\<lparr>posthog_capture_ok := False\<rparr>)
   \<and> fst (trackEvent (world0\<lparr>posthog_capture_ok := False\<rparr>) client0 ''deploy'' []) =
       Inl (TelemetryError ''Failed to track event: Error: posthog.capture'' ''EVENT_TRACKING_ERROR'')"
  using trackEvent_dispatch_failure_typed [of client0 "JBool True" "PostHog posthogKey posthogOptions"
      "world0\<lparr>posthog_capture_ok := False\<rparr>" "''deploy''" "[]"]
  by (simp add: client0_def config0_def)

text \<open>
  The claim as stated makes \<open>trackEvent\<close> the only operation that propagates a
  backend failure. \<open>shutdown\<close> propagates a rejection of \<open>posthog.shutdown()\<close>.
\<close>

theorem shutdown_backend_failure_counterexample:
  "fst (shutdown (world0\<lparr>posthog_shutdown_ok := False\<rparr>) client0) =
     Inl (BackendError ''posthog.shutdown'')"
  by (simp add: shutdown_def client0_def world0_def)

subsection \<open>C5: one reconnection attempt, then the event is dropped\<close>

text \<open>
  Claim C5. On an enabled client whose PostHog client is absent, \<open>trackEvent\<close>
  calls the PostHog constructor exactly once. If the constructor fails,
  \<open>trackEvent\<close> returns without error, makes no \<open>capture\<close> call, and leaves the
  client exactly as it was: nothing is queued, so every later \<open>trackEvent\<close> behaves
  as if the dropped call had never been made.
\<close>

theorem trackEvent_single_reconnect:
  assumes "get_prop (config c) ''enabled'' = Inr en" "truthy en" "posthog c = None"
  shows "length (filter isPostHogNew (trace_of (trackEvent w c eventName properties))) = 1
       \<and> (\<not> posthog_new_ok w \<longrightarrow>
            trackEvent w c eventName properties =
              (Inr (), c, [PostHogNew posthogKey posthogOptions,
                 ConsoleError ''Failed to reconnect to PostHog:'' (BackendError ''new PostHog'')])
            \<and> filter isPostHogCapture (trace_of (trackEvent w c eventName properties)) = []
            \<and> (\<forall>w' name' properties'.
                  trackEvent w' (client_of (trackEvent w c eventName properties)) name' properties'
                  = trackEvent w' c name' properties'))"
proof -
  obtain iid where iid: "get_prop (config c) ''instanceId'' = Inr iid"
    using get_prop_readable [OF assms(1)] by blast
  show ?thesis
    using assms iid
    by (simp add: trackEvent_def reconnectPostHog_enabled trackEvent_try_def trace_of_def
        client_of_def Let_def)
qed

theorem trackEvent_single_reconnect_witness:
  "get_prop (config (client0\<lparr>posthog := None\<rparr>)) ''enabled'' = Inr (JBool True)
   \<and> truthy (JBool True) \<and> posthog (client0\<lparr>posthog := None\<rparr>) = None
   \<and> \<not> posthog_new_ok (world0\<lparr>posthog_new_ok := False\<rparr>)
   \<and> length (filter isPostHogNew (trace_of
        (trackEvent (world0\<lparr>posthog_new_ok := False\<rparr>) (client0\<lparr>posthog := None\<rparr>) ''deploy'' []))) = 1
   \<and> trackEvent (world0\<lparr>posthog_new_ok := False\<rparr>) (client0\<lparr>posthog := None\<rparr>) ''deploy'' [] =
       (Inr (), client0\<lparr>posthog := None\<rparr>,
        [PostHogNew posthogKey posthogOptions,
         ConsoleError ''Failed to reconnect to PostHog:'' (BackendError ''new PostHog'')])"
proof -
  have e: "get_prop (config (client0\<lparr>posthog := None\<rparr>)) ''enabled'' = Inr (JBool True)"
    by (simp add: client0_def config0_def)
  have t: "truthy (JBool True)" by simp
  have p: "posthog (client0\<lparr>posthog := None\<rparr>) = None" by simp
  have n: "\<not> posthog_new_ok (world0\<lparr>posthog_new_ok := False\<rparr>)" by simp
  show ?thesis
    using trackEvent_single_reconnect [OF e t p, of "world0\<lparr>posthog_new_ok := False\<rparr>" "''deploy''" "[]"]
      e n
    by (simp add: trace_of_def)
qed

subsection \<open>C6: trackError and its caller\<close>

text \<open>
  Claim C6, amended. On a client whose config can be read (every client that
  \<open>initialize\<close> returns), \<open>trackError\<close> returns normally in every case but one:
  the client is enabled, Sentry is initialized or has just been initialized again, and
  the submission throws. In particular it returns normally, with no effect at all,
  when the client is disabled, and it returns normally, having logged the failure, when
  Sentry was not initialized and initializing it again fails.
\<close>

theorem trackError_raises_only_when_submission_throws:
  assumes "get_prop (config c) ''enabled'' = Inr en"
  shows "(fst (trackError w c err ctx) = Inr ()) =
           (\<not> (truthy en \<and> (sentryInitialized c \<or> sentry_init_ok w) \<and> \<not> sentry_capture_ok w))
       \<and> (\<not> truthy en \<longrightarrow> trackError w c err ctx = (Inr (), c, []))
       \<and> (truthy en \<and> \<not> sentryInitialized c \<and> \<not> sentry_init_ok w \<longrightarrow>
            trackError w c err ctx =
              (Inr (), c, [SentryInit (sentryOptions w (appName c)),
                 ConsoleError ''Failed to reconnect to Sentry:'' (BackendError ''Sentry.init'')]))"
proof -
  obtain iid where iid: "get_prop (config c) ''instanceId'' = Inr iid"
    using get_prop_readable [OF assms] by blast
  show ?thesis
    using assms iid
    by (auto simp add: trackError_def reconnectSentry_enabled Let_def)
qed

theorem trackError_raises_only_when_submission_throws_witness:
  "get_prop (config client0) ''enabled'' = Inr (JBool True)
   \<and> truthy (JBool True) \<and> \<not> sentryInitialized (client0\<lparr>sentryInitialized := False\<rparr>)
   \<and> \<not> sentry_init_ok (world0\<lparr>sentry_init_ok := False\<rparr>)
   \<and> trackError (world0\<lparr>sentry_init_ok := False\<rparr>) (client0\<lparr>sentryInitialized := False\<rparr>) ''boom'' [] =
       (Inr (), client0\<lparr>sentryInitialized := False\<rparr>,
        [SentryInit (sentryOptions (world0\<lparr>sentry_init_ok := False\<rparr>) ''tool''),
         ConsoleError ''Failed to reconnect to Sentry:'' (BackendError ''Sentry.init'')])"
  using trackError_raises_only_when_submission_throws
    [of "client0\<lparr>sentryInitialized := False\<rparr>" "JBool True" "world0\<lparr>sentry_init_ok := False\<rparr>" "''boom''" "[]"]
  by (simp add: client0_def config0_def)

text \<open>
  The claim as stated includes a failing submission among the cases that return
  normally. \<open>Sentry.withScope\<close> is in no \<open>try\<close>: an exception thrown by the
  submission reaches the caller of \<open>trackError\<close>.
\<close>

theorem trackError_submission_failure_counterexample:
  "fst (trackError (world0\<lparr>sentry_capture_ok := False\<rparr>) client0 ''boom'' []) =
     Inl (BackendError ''Sentry.captureException'')"
  by (simp add: trackError_def client0_def config0_def world0_def Let_def)

subsection \<open>C7: load and an unusable config file\<close>

text \<open>
  Claim C7. \<open>load\<close> never fails with the error of \<open>fs.access\<close>, of
  \<open>fs.readFile\<close> or of \<open>JSON.parse\<close>. When the file at the resolved path is
  absent, unreadable or not valid JSON, the result of \<open>load\<close> is the result of
  \<open>createNew\<close> for that path, and its calls are those of the failed attempt
  followed by those of \<open>createNew\<close>.
\<close>

theorem load_never_propagates_read_failure:
  "fst (load w app customPath) \<noteq> Inl (FsError ''access'')
   \<and> fst (load w app customPath) \<noteq> Inl (FsError ''readFile'')
   \<and> fst (load w app customPath) \<noteq> Inl (SyntaxError m)
   \<and> (\<forall>p. resolvePath w app customPath = Inr p \<and>
          (files w p = Absent \<or> files w p = Unreadable \<or>
           (\<exists>s. files w p = Content s \<and> JSON_parse w s = None)) \<longrightarrow>
          fst (load w app customPath) = fst (createNew w app p) \<and>
          snd (load w app customPath) = snd (load_try w p) @ snd (createNew w app p))"
  by (auto simp add: load_def load_try_def resolvePath_def getDefaultConfigPath_def createNew_def
      saveError_def promptYesNo_def Let_def
      split: sum.splits prod.splits option.splits fsfile.splits if_splits)

theorem load_never_propagates_read_failure_witness:
  "resolvePath (world0\<lparr>files := (\<lambda>p. Content ''{oops'')\<rparr>) ''tool'' (Some ''/tmp/t.json'') = Inr ''/tmp/t.json''
   \<and> files (world0\<lparr>files := (\<lambda>p. Content ''{oops'')\<rparr>) ''/tmp/t.json'' = Content ''{oops''
   \<and> JSON_parse (world0\<lparr>files := (\<lambda>p. Content ''{oops'')\<rparr>) ''{oops'' = None
   \<and> fst (load (world0\<lparr>files := (\<lambda>p. Content ''{oops'')\<rparr>) ''tool'' (Some ''/tmp/t.json'')) =
       fst (createNew (world0\<lparr>files := (\<lambda>p. Content ''{oops'')\<rparr>) ''tool'' ''/tmp/t.json'')"
  using load_never_propagates_read_failure [of "world0\<lparr>files := (\<lambda>p. Content ''{oops'')\<rparr>" "''tool''"
      "Some ''/tmp/t.json''" "[]"]
  by (simp add: resolvePath_def world0_def)

subsection \<open>C8: shutdown twice\<close>

text \<open>
  Claim C8, amended. For every client state, if a call of \<open>shutdown\<close> returns
  normally, then both handles are released and a second call of \<open>shutdown\<close>, in any
  environment, returns normally, changes nothing and makes no close or flush call.
\<close>

theorem shutdown_idempotent:
  assumes "fst (shutdown w1 c) = Inr ()"
  shows "posthog (client_of (shutdown w1 c)) = None
       \<and> \<not> sentryInitialized (client_of (shutdown w1 c))
       \<and> shutdown w2 (client_of (shutdown w1 c)) = (Inr (), client_of (shutdown w1 c), [])"
  using assms
  by (auto simp add: shutdown_def client_of_def split: option.splits if_splits)



theorem shutdown_idempotent_witness:
  "fst (shutdown world0 client0) = Inr ()
   \<and> shutdown world0 (client_of (shutdown world0 client0)) =
       (Inr (), client0\<lparr>posthog := None, sentryInitialized := False\<rparr>, [])"
  using shutdown_idempotent [of world0 client0 world0]
  by (simp add: shutdown_def client_of_def client0_def world0_def)

text \<open>
  The claim as stated holds for every client state and every first call. When
  \<open>posthog.shutdown()\<close> rejects in the first call, the assignment that releases
  the handle is skipped, and the second call closes PostHog again and can fail again.
\<close>

theorem shutdown_twice_counterexample:
  "fst (shutdown (world0\<lparr>posthog_shutdown_ok := False\<rparr>) client0) = Inl (BackendError ''posthog.shutdown'')
   \<and> posthog (client_of (shutdown (world0\<lparr>posthog_shutdown_ok := False\<rparr>) client0)) =
       Some (PostHog posthogKey posthogOptions)
   \<and> shutdown (world0\<lparr>posthog_shutdown_ok := False\<rparr>)
        (client_of (shutdown (world0\<lparr>posthog_shutdown_ok := False\<rparr>) client0)) =
       (Inl (BackendError ''posthog.shutdown''), client0, [PostHogShutdown])"
  by (simp add: shutdown_def client_of_def client0_def world0_def)

subsection \<open>C9: updateConsent without a config path\<close>

text \<open>
  Claim C9. When \<open>configPath\<close> of the config is unset (or otherwise falsy),
  \<open>ConfigManager.updateConsent\<close> throws a \<open>TelemetryError\<close> with code
  \<open>CONFIG_PATH_ERROR\<close> before it assigns anything, and \<open>Telemetry.updateConsent\<close>
  passes the error on: the config and the whole client are exactly as before the call,
  and no external call was made.
\<close>

theorem updateConsent_without_path:
  assumes "get_prop (config c) ''configPath'' = Inr p" "\<not> truthy p"
  shows "updateConsent w c enabled =
           (Inl (TelemetryError ''No config path specified'' ''CONFIG_PATH_ERROR''), c, [])
       \<and> ConfigManager_updateConsent w (config c) enabled =
           (Inl (TelemetryError ''No config path specified'' ''CONFIG_PATH_ERROR''), config c, [])"
  using assms by (simp add: updateConsent_def ConfigManager_updateConsent_def)

theorem updateConsent_without_path_witness:
  "get_prop (config client_nopath) ''configPath'' = Inr JUndefined \<and> \<not> truthy JUndefined
   \<and> updateConsent world0 client_nopath False =
       (Inl (TelemetryError ''No config path specified'' ''CONFIG_PATH_ERROR''), client_nopath, [])"
  using updateConsent_without_path [of client_nopath JUndefined world0 False]
  by (simp add: client_nopath_def config_nopath_def)

subsection \<open>C10: load does not validate what it parsed\<close>

text \<open>
  Claim C10. Whenever the file at the resolved path holds text that \<open>JSON.parse\<close>
  accepts, \<open>load\<close> returns the parsed value itself, whatever its shape, after the
  two file system calls and nothing else.
\<close>

theorem load_returns_parsed_value:
  assumes "resolvePath w app customPath = Inr p" "files w p = Content s" "JSON_parse w s = Some v"
  shows "load w app customPath = (Inr v, [FsAccess p, FsReadFile p])"
  using assms by (simp add: load_def load_try_def)

theorem load_returns_parsed_value_witness:
  "resolvePath (world0\<lparr>files := (\<lambda>p. Content ''42'')\<rparr>) ''tool'' (Some ''/tmp/t.json'') = Inr ''/tmp/t.json''
   \<and> files (world0\<lparr>files := (\<lambda>p. Content ''42'')\<rparr>) ''/tmp/t.json'' = Content ''42''
   \<and> JSON_parse (world0\<lparr>files := (\<lambda>p. Content ''42'')\<rparr>) ''42'' = Some (JNum 42)
   \<and> load (world0\<lparr>files := (\<lambda>p. Content ''42'')\<rparr>) ''tool'' (Some ''/tmp/t.json'') =
       (Inr (JNum 42), [FsAccess ''/tmp/t.json'', FsReadFile ''/tmp/t.json''])"
  using load_returns_parsed_value [of "world0\<lparr>files := (\<lambda>p. Content ''42'')\<rparr>" "''tool''"
      "Some ''/tmp/t.json''" "''/tmp/t.json''" "''42''" "JNum 42"]
  by (simp add: resolvePath_def world0_def)

end
